theory Spec2Isabelle
  imports Main
begin

section \<open>Python values, exceptions and name resolution\<close>

text \<open>
  The module \<^verbatim>\<open>publicAPI/crest_endpoint.py\<close> passes around request arguments (integers,
  strings, \<^verbatim>\<open>None\<close>), configuration strings and handles to modules and classes. The
  handles are opaque here: a \<open>PyObject\<close> carries only the expression that made it.
\<close>

datatype pyval = PyInt int | PyStr string | PyBool bool | PyNone | PyObject string

text \<open>
  The exceptions the handlers can see. \<^verbatim>\<open>except Exception as err\<close> followed by
  \<^verbatim>\<open>isinstance(err, exceptions.ValidatorException)\<close> separates the validator family, whose
  instances carry \<^verbatim>\<open>message\<close> and \<^verbatim>\<open>status\<close>, from every other instance of
  \<^verbatim>\<open>Exception\<close>. \<open>NameError\<close> is what Python raises for a name that is bound nowhere.
\<close>

datatype exn =
    ValidatorException (message: string) (status: int)
  | NameError string
  | OtherException string

fun isinstance_ValidatorException :: "exn \<Rightarrow> bool" where
  "isinstance_ValidatorException (ValidatorException m s) = True"
| "isinstance_ValidatorException (NameError n) = False"
| "isinstance_ValidatorException (OtherException d) = False"

subsection \<open>Strings\<close>

text \<open>\<^verbatim>\<open>str.lower()\<close> on ASCII text: the letters A to Z move to a to z, all else stays.\<close>

definition lower_char :: "char \<Rightarrow> char" where
  "lower_char c =
     (case map_of (zip ''ABCDEFGHIJKLMNOPQRSTUVWXYZ'' ''abcdefghijklmnopqrstuvwxyz'') c of
        Some l \<Rightarrow> l
      | None \<Rightarrow> c)"

definition lower :: "string \<Rightarrow> string" where
  "lower s = map lower_char s"

text \<open>\<^verbatim>\<open>str(n)\<close> for an integer, and \<^verbatim>\<open>'{0}'.format(v)\<close> for the values a request carries.\<close>

fun str_nat :: "nat \<Rightarrow> string" where
  "str_nat n =
     (if n < 10 then [''0123456789'' ! n]
      else str_nat (n div 10) @ [''0123456789'' ! (n mod 10)])"

declare str_nat.simps [simp del]

definition str_int :: "int \<Rightarrow> string" where
  "str_int i = (if i < 0 then ''-'' @ str_nat (nat (- i)) else str_nat (nat i))"

fun format_value :: "pyval \<Rightarrow> string" where
  "format_value (PyInt i) = str_int i"
| "format_value (PyStr s) = s"
| "format_value (PyBool b) = (if b then ''True'' else ''False'')"
| "format_value PyNone = ''None''"
| "format_value (PyObject d) = d"

section \<open>The format enumeration\<close>

text \<open>
  \<^verbatim>\<open>class AcceptedDataFormat(Enum): CSV = 0; JSON = 1\<close>. The class body binds the two
  members; the keys of the class's \<^verbatim>\<open>__dict__\<close> are these two names together with the
  attributes the \<^verbatim>\<open>enum\<close> machinery of the standard library adds, which is not part of
  the repository and is a parameter here.
\<close>

datatype AcceptedDataFormat = CSV | JSON

fun member_name :: "AcceptedDataFormat \<Rightarrow> string" where
  "member_name CSV = ''CSV''"
| "member_name JSON = ''JSON''"

fun member_value :: "AcceptedDataFormat \<Rightarrow> int" where
  "member_value CSV = 0"
| "member_value JSON = 1"

definition AcceptedDataFormat_members :: "AcceptedDataFormat list" where
  "AcceptedDataFormat_members = [CSV, JSON]"

text \<open>
  The keys of \<^verbatim>\<open>AcceptedDataFormat.__dict__\<close> as CPython 3.11 lists them: the machinery's
  attributes before and after the members, the members in definition order.
\<close>

definition enum_keys_before :: "string list" where
  "enum_keys_before =
     [''_generate_next_value_'', ''__module__'', ''__doc__'', ''_new_member_'',
      ''_use_args_'', ''_member_names_'', ''_member_map_'', ''_value2member_map_'',
      ''_unhashable_values_'', ''_member_type_'', ''_value_repr_'']"

definition enum_keys_after :: "string list" where
  "enum_keys_after = [''__new__'']"

definition AcceptedDataFormat_dict_keys :: "string list" where
  "AcceptedDataFormat_dict_keys =
     enum_keys_before @ map member_name AcceptedDataFormat_members @ enum_keys_after"

text \<open>
  \<^verbatim>\<open>return_supported_types\<close>: the loop over the keys, appending the lowercased key when
  it holds no underscore. The key list is the argument, so that the function can be read on
  any interpreter's class dictionary.
\<close>

definition supported_types_step :: "string list \<Rightarrow> string \<Rightarrow> string list" where
  "supported_types_step supported_types key =
     (if CHR ''_'' \<notin> set key then supported_types @ [lower key] else supported_types)"

definition return_supported_types :: "string list \<Rightarrow> string list" where
  "return_supported_types dict_keys = foldl supported_types_step [] dict_keys"

section \<open>The module namespace\<close>

text \<open>
  A free name of a function body is looked up in the module's globals and then in the
  builtins; a name found in neither raises \<^verbatim>\<open>NameError\<close>. The globals are the names
  the module's own statements bind, in the order of the source: the imports, the
  constants, the classes and the functions. The values of the handles are opaque.
  The configuration source \<^verbatim>\<open>CONFIG\<close> is outside the repository and is a parameter:
  \<open>CONFIG section key\<close> is what \<^verbatim>\<open>CONFIG.get(section, key)\<close> returns.
\<close>

type_synonym config = "string \<Rightarrow> string \<Rightarrow> string"

type_synonym namespace = "(string \<times> pyval) list"

definition python_builtins :: "string list" where
  "python_builtins =
     [''ArithmeticError'', ''AssertionError'', ''AttributeError'', ''BaseException'',
      ''BaseExceptionGroup'', ''BlockingIOError'', ''BrokenPipeError'', ''BufferError'',
      ''BytesWarning'', ''ChildProcessError'', ''ConnectionAbortedError'',
      ''ConnectionError'', ''ConnectionRefusedError'', ''ConnectionResetError'',
      ''DeprecationWarning'', ''EOFError'', ''Ellipsis'', ''EncodingWarning'',
      ''EnvironmentError'', ''Exception'', ''ExceptionGroup'', ''False'', ''FileExistsError'',
      ''FileNotFoundError'', ''FloatingPointError'', ''FutureWarning'', ''GeneratorExit'',
      ''IOError'', ''ImportError'', ''ImportWarning'', ''IndentationError'', ''IndexError'',
      ''InterruptedError'', ''IsADirectoryError'', ''KeyError'', ''KeyboardInterrupt'',
      ''LookupError'', ''MemoryError'', ''ModuleNotFoundError'', ''NameError'', ''None'',
      ''NotADirectoryError'', ''NotImplemented'', ''NotImplementedError'', ''OSError'',
      ''OverflowError'', ''PendingDeprecationWarning'', ''PermissionError'',
      ''ProcessLookupError'', ''RecursionError'', ''ReferenceError'', ''ResourceWarning'',
      ''RuntimeError'', ''RuntimeWarning'', ''StopAsyncIteration'', ''StopIteration'',
      ''SyntaxError'', ''SyntaxWarning'', ''SystemError'', ''SystemExit'', ''TabError'',
      ''TimeoutError'', ''True'', ''TypeError'', ''UnboundLocalError'',
      ''UnicodeDecodeError'', ''UnicodeEncodeError'', ''UnicodeError'',
      ''UnicodeTranslateError'', ''UnicodeWarning'', ''UserWarning'', ''ValueError'',
      ''Warning'', ''ZeroDivisionError'', ''__build_class__'', ''__debug__'', ''__doc__'',
      ''__import__'', ''__loader__'', ''__name__'', ''__package__'', ''__spec__'', ''abs'',
      ''aiter'', ''all'', ''anext'', ''any'', ''ascii'', ''bin'', ''bool'', ''breakpoint'',
      ''bytearray'', ''bytes'', ''callable'', ''chr'', ''classmethod'', ''compile'',
      ''complex'', ''copyright'', ''credits'', ''delattr'', ''dict'', ''dir'', ''divmod'',
      ''enumerate'', ''eval'', ''exec'', ''exit'', ''filter'', ''float'', ''format'',
      ''frozenset'', ''getattr'', ''globals'', ''hasattr'', ''hash'', ''help'', ''hex'',
      ''id'', ''input'', ''int'', ''isinstance'', ''issubclass'', ''iter'', ''len'',
      ''license'', ''list'', ''locals'', ''map'', ''max'', ''memoryview'', ''min'', ''next'',
      ''object'', ''oct'', ''open'', ''ord'', ''pow'', ''print'', ''property'', ''quit'',
      ''range'', ''repr'', ''reversed'', ''round'', ''set'', ''setattr'', ''slice'',
      ''sorted'', ''staticmethod'', ''str'', ''sum'', ''super'', ''tuple'', ''type'',
      ''vars'', ''zip'']"

text \<open>
  \<^verbatim>\<open>DEFAULT_RANGE = CONFIG.get('CREST', 'prophet_range')\<close> and
  \<^verbatim>\<open>MAX_RANGE = CONFIG.get('CREST', 'prophet_max')\<close>; both are concatenated to
  strings in the help text of the \<^verbatim>\<open>range\<close> argument, so both are strings.
\<close>

definition DEFAULT_RANGE :: "config \<Rightarrow> string" where
  "DEFAULT_RANGE CONFIG = CONFIG ''CREST'' ''prophet_range''"

definition MAX_RANGE :: "config \<Rightarrow> string" where
  "MAX_RANGE CONFIG = CONFIG ''CREST'' ''prophet_max''"

text \<open>The names bound before the statement \<^verbatim>\<open>def collect_stats(...)\<close> runs (lines 1 to 45).\<close>

definition globals_before_collect_stats :: namespace where
  "globals_before_collect_stats =
     [(''__name__'', PyStr ''publicAPI.crest_endpoint''),
      (''__doc__'', PyStr ''crest_endpoint.py: collection of public crest endpoints for Prosper''),
      (''__file__'', PyObject ''path of crest_endpoint.py''),
      (''sys'', PyObject ''module sys''),
      (''path'', PyObject ''module os.path''),
      (''datetime'', PyObject ''class datetime.datetime''),
      (''Enum'', PyObject ''class enum.Enum''),
      (''json'', PyObject ''module ujson''),
      (''Flask'', PyObject ''class flask.Flask''),
      (''Response'', PyObject ''class flask.Response''),
      (''jsonify'', PyObject ''function flask.jsonify''),
      (''reqparse'', PyObject ''module flask_restful.reqparse''),
      (''Api'', PyObject ''class flask_restful.Api''),
      (''Resource'', PyObject ''class flask_restful.Resource''),
      (''request'', PyObject ''flask_restful.request''),
      (''forecast_utils'', PyObject ''module publicAPI.forecast_utils''),
      (''crest_utils'', PyObject ''module publicAPI.crest_utils''),
      (''exceptions'', PyObject ''module publicAPI.exceptions''),
      (''api_config'', PyObject ''module publicAPI.config''),
      (''p_logging'', PyObject ''module prosper.common.prosper_logging''),
      (''p_config'', PyObject ''module prosper.common.prosper_config''),
      (''HERE'', PyObject ''path.abspath(path.dirname(__file__))''),
      (''CONFIG_FILEPATH'', PyObject ''path.join(HERE, publicAPI.cfg)''),
      (''CONFIG'', PyObject ''p_config.ProsperConfig(CONFIG_FILEPATH)''),
      (''LOGGER'', PyObject ''p_logging.DEFAULT_LOGGER''),
      (''DEBUG'', PyBool False),
      (''TEST'', PyObject ''forecast_utils.LOGGER''),
      (''API'', PyObject ''Api()''),
      (''AcceptedDataFormat'', PyObject ''class AcceptedDataFormat''),
      (''return_supported_types'', PyObject ''function return_supported_types'')]"

text \<open>The names bound by the rest of the module (lines 46 to 290).\<close>

definition globals_from_collect_stats :: "config \<Rightarrow> namespace" where
  "globals_from_collect_stats CONFIG =
     [(''collect_stats'', PyObject ''function collect_stats''),
      (''output_csv'', PyObject ''function output_csv''),
      (''OHLC_endpoint'', PyObject ''class OHLC_endpoint''),
      (''DEFAULT_RANGE'', PyStr (DEFAULT_RANGE CONFIG)),
      (''MAX_RANGE'', PyStr (MAX_RANGE CONFIG)),
      (''ProphetEndpoint'', PyObject ''class ProphetEndpoint''),
      (''CrestEndpointException'', PyObject ''class CrestEndpointException''),
      (''BadStatus'', PyObject ''class BadStatus'')]"

definition module_globals :: "config \<Rightarrow> namespace" where
  "module_globals CONFIG = globals_before_collect_stats @ globals_from_collect_stats CONFIG"

definition load_global :: "namespace \<Rightarrow> string \<Rightarrow> exn + pyval" where
  "load_global G name =
     (case map_of G name of
        Some v \<Rightarrow> Inr v
      | None \<Rightarrow>
          if name \<in> set python_builtins then Inr (PyObject name) else Inl (NameError name))"

definition range_help :: "config \<Rightarrow> string" where
  "range_help CONFIG =
     ''Range for forecasting: default='' @ DEFAULT_RANGE CONFIG @ '' max='' @ MAX_RANGE CONFIG"

section \<open>Effects: the trace of a request\<close>

text \<open>
  A handler logs, calls its collaborators and either returns or lets an exception leave.
  What it did is a trace of events in the order they happened; a computation takes the
  trace so far and gives back its outcome (\<open>Inl\<close> an exception that is propagating,
  \<open>Inr\<close> a value) together with the extended trace. The type \<open>'d\<close> is the data frame
  (a history series or a forecast), which the module only hands from one collaborator to
  the next.
\<close>

datatype 'd event =
    LOGGER_info string
  | LOGGER_debug "(string \<times> pyval) list"
  | LOGGER_warning string exn
  | Called_validate_id string pyval
  | Called_fetch_market_history pyval pyval
  | Called_fetch_extended_history pyval pyval
  | Called_build_forecast 'd pyval
  | Called_data_to_format 'd pyval
  | Called_OHLC_to_format 'd pyval

type_synonym ('a, 'd) prog = "'d event list \<Rightarrow> (exn + 'a) \<times> 'd event list"

definition unit_prog :: "'a \<Rightarrow> ('a, 'd) prog" where
  "unit_prog a = (\<lambda>tr. (Inr a, tr))"

definition emit :: "'d event \<Rightarrow> (unit, 'd) prog" where
  "emit e = (\<lambda>tr. (Inr (), tr @ [e]))"

definition called :: "'d event \<Rightarrow> exn + 'a \<Rightarrow> ('a, 'd) prog" where
  "called e outcome = (\<lambda>tr. (outcome, tr @ [e]))"

definition lookup :: "exn + 'a \<Rightarrow> ('a, 'd) prog" where
  "lookup outcome = (\<lambda>tr. (outcome, tr))"

text \<open>One statement after another: an exception of the first skips the second.\<close>

definition then_do :: "('a, 'd) prog \<Rightarrow> ('a \<Rightarrow> ('b, 'd) prog) \<Rightarrow> ('b, 'd) prog" where
  "then_do m f =
     (\<lambda>tr. case m tr of
        (Inl err, tr') \<Rightarrow> (Inl err, tr')
      | (Inr a, tr') \<Rightarrow> f a tr')"

text \<open>
  \<^verbatim>\<open>try: x = body  except Exception as err: x = handler(err)\<close>, after which the function
  goes on with \<open>x\<close>.
\<close>

definition try_except :: "('a, 'd) prog \<Rightarrow> (exn \<Rightarrow> ('a, 'd) prog) \<Rightarrow> ('a, 'd) prog" where
  "try_except body handler =
     (\<lambda>tr. case body tr of
        (Inl err, tr') \<Rightarrow> handler err tr'
      | (Inr a, tr') \<Rightarrow> (Inr a, tr'))"

text \<open>
  \<^verbatim>\<open>try: x = body  except Exception as err: return handler(err)\<close> followed by the rest of
  the function: the handler's value is the function's result, and the rest runs only when
  the body raised nothing.
\<close>

definition try_except_return ::
  "('a, 'd) prog \<Rightarrow> (exn \<Rightarrow> ('r, 'd) prog) \<Rightarrow> ('a \<Rightarrow> ('r, 'd) prog) \<Rightarrow> ('r, 'd) prog" where
  "try_except_return body handler rest =
     (\<lambda>tr. case body tr of
        (Inl err, tr') \<Rightarrow> handler err tr'
      | (Inr a, tr') \<Rightarrow> rest a tr')"

section \<open>The usage-statistics hook\<close>

text \<open>
  \<^verbatim>\<open>def collect_stats(endpoint_name, args_payload, additional_data=None,
  db_name='CREST_stats.json', logger=DEFAULT_LOGGER): pass\<close>.
  Python evaluates the default expressions once, when the \<^verbatim>\<open>def\<close> statement runs, in
  the namespace of that moment; the function exists only if they evaluate. The body is
  \<^verbatim>\<open>pass\<close>: it does nothing and the call returns \<^verbatim>\<open>None\<close>.
\<close>

record collect_stats_defaults =
  additional_data_default :: pyval
  db_name_default :: pyval
  logger_default :: pyval

definition def_collect_stats :: "namespace \<Rightarrow> exn + collect_stats_defaults" where
  "def_collect_stats G =
     (case load_global G ''DEFAULT_LOGGER'' of
        Inl err \<Rightarrow> Inl err
      | Inr lg \<Rightarrow>
          Inr \<lparr>additional_data_default = PyNone,
               db_name_default = PyStr ''CREST_stats.json'',
               logger_default = lg\<rparr>)"

definition collect_stats ::
  "string \<Rightarrow> (string \<times> pyval) list \<Rightarrow> pyval \<Rightarrow> pyval \<Rightarrow> pyval \<Rightarrow> (pyval, 'd) prog" where
  "collect_stats endpoint_name args_payload additional_data db_name logger = unit_prog PyNone"

text \<open>
  A call \<^verbatim>\<open>collect_stats(endpoint_name, args_payload)\<close> that leaves the optional arguments
  out, in a module whose statements ran in the namespace \<open>G\<close>: the defaults are those the
  \<^verbatim>\<open>def\<close> statement computed, when it did.
\<close>

definition collect_stats_with_defaults ::
  "namespace \<Rightarrow> string \<Rightarrow> (string \<times> pyval) list \<Rightarrow> (pyval, 'd) prog" where
  "collect_stats_with_defaults G endpoint_name args_payload =
     then_do (lookup (def_collect_stats G))
       (\<lambda>d. collect_stats endpoint_name args_payload
               (additional_data_default d) (db_name_default d) (logger_default d))"

section \<open>The collaborators\<close>

text \<open>
  \<^verbatim>\<open>crest_utils\<close>, \<^verbatim>\<open>forecast_utils\<close> and \<^verbatim>\<open>exceptions\<close> are imported and not part of
  the sources at hand, so the functions the handlers call are parameters: each either
  raises or returns. Within one request no collaborator is called twice on the same
  arguments, so a function of the arguments stands for any behaviour of the services
  behind it. The keyword arguments \<^verbatim>\<open>config=api_config.CONFIG, logger=LOGGER\<close>, which
  the handlers pass to \<^verbatim>\<open>validate_id\<close> and which only the OHLC handler passes to
  \<^verbatim>\<open>fetch_market_history\<close>, are constants of the module and are left out.
\<close>

record ('d, 'p) collaborators =
  validate_id :: "string \<Rightarrow> pyval \<Rightarrow> exn + unit"
  fetch_market_history :: "pyval \<Rightarrow> pyval \<Rightarrow> exn + 'd"
  fetch_extended_history :: "pyval \<Rightarrow> pyval \<Rightarrow> exn + 'd"
  build_forecast :: "'d \<Rightarrow> pyval \<Rightarrow> exn + 'd"
  data_to_format :: "'d \<Rightarrow> pyval \<Rightarrow> exn + 'p"
  OHLC_to_format :: "'d \<Rightarrow> pyval \<Rightarrow> exn + 'p"

definition call_validate_id ::
  "('d, 'p) collaborators \<Rightarrow> string \<Rightarrow> pyval \<Rightarrow> (unit, 'd) prog" where
  "call_validate_id env table_name id_value =
     called (Called_validate_id table_name id_value) (validate_id env table_name id_value)"

definition call_fetch_market_history ::
  "('d, 'p) collaborators \<Rightarrow> pyval \<Rightarrow> pyval \<Rightarrow> ('d, 'd) prog" where
  "call_fetch_market_history env region_id type_id =
     called (Called_fetch_market_history region_id type_id)
       (fetch_market_history env region_id type_id)"

definition call_fetch_extended_history ::
  "('d, 'p) collaborators \<Rightarrow> pyval \<Rightarrow> pyval \<Rightarrow> ('d, 'd) prog" where
  "call_fetch_extended_history env region_id type_id =
     called (Called_fetch_extended_history region_id type_id)
       (fetch_extended_history env region_id type_id)"

definition call_build_forecast ::
  "('d, 'p) collaborators \<Rightarrow> 'd \<Rightarrow> pyval \<Rightarrow> ('d, 'd) prog" where
  "call_build_forecast env data forecast_range =
     called (Called_build_forecast data forecast_range) (build_forecast env data forecast_range)"

definition call_data_to_format ::
  "('d, 'p) collaborators \<Rightarrow> 'd \<Rightarrow> pyval \<Rightarrow> ('p, 'd) prog" where
  "call_data_to_format env data return_type =
     called (Called_data_to_format data return_type) (data_to_format env data return_type)"

definition call_OHLC_to_format ::
  "('d, 'p) collaborators \<Rightarrow> 'd \<Rightarrow> pyval \<Rightarrow> ('p, 'd) prog" where
  "call_OHLC_to_format env data return_type =
     called (Called_OHLC_to_format data return_type) (OHLC_to_format env data return_type)"

section \<open>The endpoint handlers\<close>

text \<open>
  \<^verbatim>\<open>args = self.reqparse.parse_args()\<close> is the framework's work; the handlers start from
  the parsed arguments, a dictionary read with \<^verbatim>\<open>args.get(key)\<close>, which gives
  \<^verbatim>\<open>None\<close> for a key that is absent.
\<close>

definition args_get :: "(string \<times> pyval) list \<Rightarrow> string \<Rightarrow> pyval" where
  "args_get args key = (case map_of args key of None \<Rightarrow> PyNone | Some v \<Rightarrow> v)"

text \<open>
  What a handler hands back to the framework: the pair \<^verbatim>\<open>err.message, err.status\<close> or
  \<^verbatim>\<open>'UNHANDLED EXCEPTION', 500\<close> of an \<^verbatim>\<open>except\<close> clause, or the formatted message.
\<close>

datatype 'p returned = Body_Status string int | Message 'p

definition except_response :: "exn \<Rightarrow> 'p returned" where
  "except_response err =
     (if isinstance_ValidatorException err then Body_Status (message err) (status err)
      else Body_Status ''UNHANDLED EXCEPTION'' 500)"

text \<open>The block \<^verbatim>\<open>## Validate inputs ##\<close>, the same text in both handlers.\<close>

definition validate_inputs ::
  "('d, 'p) collaborators \<Rightarrow> (string \<times> pyval) list \<Rightarrow> (unit \<Rightarrow> ('p returned, 'd) prog)
     \<Rightarrow> ('p returned, 'd) prog" where
  "validate_inputs env args rest =
     try_except_return
       (then_do (call_validate_id env ''map_regions'' (args_get args ''regionID''))
          (\<lambda>_. call_validate_id env ''inventory_types'' (args_get args ''typeID'')))
       (\<lambda>err. then_do (emit (LOGGER_warning ''ERROR: unable to validate type/region ids'' err))
          (\<lambda>_. unit_prog (except_response err)))
       rest"

text \<open>\<^verbatim>\<open>OHLC_endpoint.get(self, return_type)\<close>.\<close>

definition OHLC_endpoint_get ::
  "('d, 'p) collaborators \<Rightarrow> (string \<times> pyval) list \<Rightarrow> string \<Rightarrow> ('p returned, 'd) prog" where
  "OHLC_endpoint_get env args return_type =
     then_do (emit (LOGGER_info (''OHLC?regionID='' @ format_value (args_get args ''regionID'')
                                 @ ''&typeID='' @ format_value (args_get args ''typeID''))))
     (\<lambda>_. then_do (emit (LOGGER_debug args))
     (\<lambda>_. validate_inputs env args
     (\<lambda>_. try_except_return
             (call_fetch_market_history env (args_get args ''regionID'') (args_get args ''typeID''))
             (\<lambda>err. then_do (emit (LOGGER_warning ''ERROR: unable to parse CREST data'' err))
                (\<lambda>_. unit_prog (except_response err)))
     (\<lambda>data. then_do (call_OHLC_to_format env data (PyStr return_type))
     (\<lambda>message. unit_prog (Message message))))))"

text \<open>
  \<^verbatim>\<open>ProphetEndpoint.get(self)\<close>. The method has no parameter \<^verbatim>\<open>return_type\<close> and
  assigns no such local, so the \<^verbatim>\<open>return_type\<close> of its last call is a global name, looked
  up when the arguments of \<^verbatim>\<open>data_to_format\<close> are evaluated, as is \<^verbatim>\<open>DEFAULT_RANGE\<close>.
  The fallback fetch, \<^verbatim>\<open>build_forecast\<close> and \<^verbatim>\<open>data_to_format\<close> stand outside every
  \<^verbatim>\<open>try\<close>.
\<close>

definition ProphetEndpoint_get ::
  "('d, 'p) collaborators \<Rightarrow> config \<Rightarrow> (string \<times> pyval) list \<Rightarrow> ('p returned, 'd) prog" where
  "ProphetEndpoint_get env CONFIG args =
     then_do (emit (LOGGER_info (''prophet?regionID='' @ format_value (args_get args ''regionID'')
                                 @ ''&typeID='' @ format_value (args_get args ''typeID'')
                                 @ ''&range='' @ format_value (args_get args ''range''))))
     (\<lambda>_. then_do (emit (LOGGER_debug args))
     (\<lambda>_. validate_inputs env args
     (\<lambda>_. then_do (lookup (load_global (module_globals CONFIG) ''DEFAULT_RANGE''))
     (\<lambda>forecast_range.
           then_do (try_except
                      (call_fetch_extended_history env
                         (args_get args ''regionID'') (args_get args ''typeID''))
                      (\<lambda>err. then_do (emit (LOGGER_warning ''Unable to fetch data from archive'' err))
                         (\<lambda>_. call_fetch_market_history env
                                 (args_get args ''regionID'') (args_get args ''typeID''))))
     (\<lambda>data. then_do (call_build_forecast env data forecast_range)
     (\<lambda>data. then_do (lookup (load_global (module_globals CONFIG) ''return_type''))
     (\<lambda>return_type. then_do (call_data_to_format env data return_type)
     (\<lambda>message. unit_prog (Message message)))))))))"

section \<open>Reading a trace\<close>

text \<open>
  The questions asked of a trace: which events are fetches from a data source, which are
  calls to a collaborator at all, with what horizon the forecast was built, and whether the
  outcome of a handler is a formatted message.
\<close>

fun is_fetch :: "'d event \<Rightarrow> bool" where
  "is_fetch (Called_fetch_market_history r t) = True"
| "is_fetch (Called_fetch_extended_history r t) = True"
| "is_fetch e = False"

fun is_archive_fetch :: "'d event \<Rightarrow> bool" where
  "is_archive_fetch (Called_fetch_extended_history r t) = True"
| "is_archive_fetch e = False"

fun is_market_fetch :: "'d event \<Rightarrow> bool" where
  "is_market_fetch (Called_fetch_market_history r t) = True"
| "is_market_fetch e = False"

fun is_data_to_format :: "'d event \<Rightarrow> bool" where
  "is_data_to_format (Called_data_to_format d rt) = True"
| "is_data_to_format e = False"

fun is_call :: "'d event \<Rightarrow> bool" where
  "is_call (LOGGER_info s) = False"
| "is_call (LOGGER_debug a) = False"
| "is_call (LOGGER_warning s e) = False"
| "is_call e = True"

fun forecast_range_of :: "'d event \<Rightarrow> pyval list" where
  "forecast_range_of (Called_build_forecast d h) = [h]"
| "forecast_range_of e = []"

definition forecast_ranges :: "'d event list \<Rightarrow> pyval list" where
  "forecast_ranges tr = concat (map forecast_range_of tr)"

fun is_message :: "exn + 'p returned \<Rightarrow> bool" where
  "is_message (Inr (Message m)) = True"
| "is_message r = False"

fun is_build_forecast :: "'d event \<Rightarrow> bool" where
  "is_build_forecast (Called_build_forecast d h) = True"
| "is_build_forecast e = False"

section \<open>A sample deployment\<close>

text \<open>
  Concrete collaborators for evaluating the handlers: two small catalogs, data sources whose
  outcome is chosen by the caller, a forecast builder and formatters that record what they
  were given, and a configuration with default range 60 and maximum 180.
\<close>

definition example_validate_id :: "string \<Rightarrow> pyval \<Rightarrow> exn + unit" where
  "example_validate_id table_name id_value =
     (if (table_name, id_value)
           \<in> set [(''map_regions'', PyInt 10000002), (''inventory_types'', PyInt 34)]
      then Inr ()
      else Inl (ValidatorException ''ID not found'' 404))"

definition example_env :: "exn + string \<Rightarrow> exn + string \<Rightarrow> (string, string) collaborators" where
  "example_env archive market =
     \<lparr>validate_id = example_validate_id,
      fetch_market_history = (\<lambda>region_id type_id. market),
      fetch_extended_history = (\<lambda>region_id type_id. archive),
      build_forecast = (\<lambda>data forecast_range. Inr (data @ '' + forecast '' @ format_value forecast_range)),
      data_to_format = (\<lambda>data return_type. Inr (format_value return_type @ '' of '' @ data)),
      OHLC_to_format = (\<lambda>data return_type. Inr (format_value return_type @ '' of '' @ data))\<rparr>"

definition example_CONFIG :: config where
  "example_CONFIG section key =
     (if section = ''CREST'' \<and> key = ''prophet_range'' then ''60''
      else if section = ''CREST'' \<and> key = ''prophet_max'' then ''180''
      else [])"

definition prophet_args :: "pyval \<Rightarrow> pyval \<Rightarrow> pyval \<Rightarrow> (string \<times> pyval) list" where
  "prophet_args region_id type_id forecast_range =
     [(''regionID'', region_id), (''typeID'', type_id), (''User-Agent'', PyStr ''tester''),
      (''api'', PyStr ''abc''), (''range'', forecast_range)]"

definition ohlc_args :: "pyval \<Rightarrow> pyval \<Rightarrow> (string \<times> pyval) list" where
  "ohlc_args region_id type_id =
     [(''regionID'', region_id), (''typeID'', type_id), (''User-Agent'', PyStr ''tester''),
      (''api'', PyNone)]"

section \<open>Unfolding and name lookups\<close>

lemmas prog_defs = unit_prog_def emit_def called_def lookup_def then_do_def try_except_def
  try_except_return_def
lemmas call_defs = call_validate_id_def call_fetch_market_history_def
  call_fetch_extended_history_def call_build_forecast_def call_data_to_format_def
  call_OHLC_to_format_def

lemmas example_defs = example_validate_id_def example_env_def example_CONFIG_def prophet_args_def ohlc_args_def
  args_get_def str_int_def str_nat.simps DEFAULT_RANGE_def

text \<open>
  Of the two data names the forecast handler reads from the globals, \<^verbatim>\<open>DEFAULT_RANGE\<close> is
  bound by the module and \<^verbatim>\<open>return_type\<close> by nothing: no statement of the module assigns it
  and no builtin has that name.
\<close>

lemma load_return_type: "load_global (module_globals CONFIG) ''return_type'' = Inl (NameError ''return_type'')"
  by (simp add: load_global_def module_globals_def globals_before_collect_stats_def globals_from_collect_stats_def python_builtins_def)
lemma load_DEFAULT_RANGE: "load_global (module_globals CONFIG) ''DEFAULT_RANGE'' = Inr (PyStr (DEFAULT_RANGE CONFIG))"
  by (simp add: load_global_def module_globals_def globals_before_collect_stats_def globals_from_collect_stats_def)

section \<open>The supported formats\<close>

lemma foldl_supported_types_step:
  "foldl supported_types_step acc ks = acc @ map lower (filter (\<lambda>key. CHR ''_'' \<notin> set key) ks)"
  by (induction ks arbitrary: acc) (simp_all add: supported_types_step_def)

lemma return_supported_types_filter:
  "return_supported_types ks = map lower (filter (\<lambda>key. CHR ''_'' \<notin> set key) ks)"
  by (simp add: return_supported_types_def foldl_supported_types_step)

lemma member_names_plain:
  "\<forall>key\<in>set (map member_name AcceptedDataFormat_members). CHR ''_'' \<notin> set key"
  by (simp add: AcceptedDataFormat_members_def)

lemma lowered_member_names:
  "map (lower \<circ> member_name) AcceptedDataFormat_members = [''csv'', ''json'']"
  by (simp add: AcceptedDataFormat_members_def lower_def lower_char_def)

lemma keep_plain_keys:
  assumes "K = M \<union> U" and "\<forall>k\<in>M. \<not> P k" and "\<forall>k\<in>U. P k"
  shows "{k \<in> K. \<not> P k} = M"
  using assms by blast

text \<open>
  Claim C8. \<^verbatim>\<open>return_supported_types()\<close> returns exactly the lowercased member names of
  \<^verbatim>\<open>AcceptedDataFormat\<close>, the set of \<^verbatim>\<open>csv\<close> and \<^verbatim>\<open>json\<close>, nothing more and nothing
  less: whenever the keys of the class dictionary are the two member names together with
  machinery attributes that each hold an underscore, whatever their order.
\<close>

theorem return_supported_types_exact:
  assumes "set dict_keys = set (map member_name AcceptedDataFormat_members) \<union> machinery"
    and "\<forall>key\<in>machinery. CHR ''_'' \<in> set key"
  shows "set (return_supported_types dict_keys) = set (map (lower \<circ> member_name) AcceptedDataFormat_members)
       \<and> set (return_supported_types dict_keys) = {''csv'', ''json''}"
proof -
  have "{key \<in> set dict_keys. \<not> CHR ''_'' \<in> set key} = set (map member_name AcceptedDataFormat_members)"
    by (rule keep_plain_keys [OF assms(1) member_names_plain assms(2)])
  then have "set (return_supported_types dict_keys)
      = lower ` set (map member_name AcceptedDataFormat_members)"
    by (simp only: return_supported_types_filter set_map set_filter)
  then have r: "set (return_supported_types dict_keys)
      = set (map (lower \<circ> member_name) AcceptedDataFormat_members)"
    by (simp only: set_map image_comp)
  have "set (map (lower \<circ> member_name) AcceptedDataFormat_members) = {''csv'', ''json''}"
    by (simp only: lowered_member_names) simp
  with r show ?thesis by simp
qed

theorem return_supported_types_exact_witness:
  "set AcceptedDataFormat_dict_keys
     = set (map member_name AcceptedDataFormat_members) \<union> set (enum_keys_before @ enum_keys_after)
   \<and> list_all (\<lambda>key. CHR ''_'' \<in> set key) (enum_keys_before @ enum_keys_after)
   \<and> set (return_supported_types AcceptedDataFormat_dict_keys) = {''csv'', ''json''}"
proof -
  have a: "set AcceptedDataFormat_dict_keys
     = set (map member_name AcceptedDataFormat_members) \<union> set (enum_keys_before @ enum_keys_after)"
    unfolding AcceptedDataFormat_dict_keys_def set_append by blast
  have c: "list_all (\<lambda>key. CHR ''_'' \<in> set key) (enum_keys_before @ enum_keys_after)"
    by (simp add: enum_keys_before_def enum_keys_after_def)
  then have b: "\<forall>key\<in>set (enum_keys_before @ enum_keys_after). CHR ''_'' \<in> set key"
    by (simp only: list_all_iff)
  from return_supported_types_exact [OF a b] a c show ?thesis by blast
qed

text \<open>
  On the key list of CPython 3.11 the result is the list \<^verbatim>\<open>['csv', 'json']\<close>, in the order
  of definition.
\<close>

lemma return_supported_types_CPython:
  "return_supported_types AcceptedDataFormat_dict_keys = [''csv'', ''json'']"
  by (simp add: return_supported_types_def AcceptedDataFormat_dict_keys_def
        enum_keys_before_def enum_keys_after_def AcceptedDataFormat_members_def
        supported_types_step_def lower_def lower_char_def)

section \<open>The OHLC handler\<close>

lemma OHLC_never_archive:
  "filter is_archive_fetch (snd (OHLC_endpoint_get env args return_type [])) = []"
  by (simp add: OHLC_endpoint_get_def validate_inputs_def prog_defs call_defs split: sum.splits prod.splits)

text \<open>
  Claim C3. The OHLC path has no fallback source: when both ids validate and
  \<^verbatim>\<open>fetch_market_history\<close> raises, the handler returns the error response of that
  exception, the market source was asked once and the archive source
  (\<^verbatim>\<open>fetch_extended_history\<close>) was never called, whatever it would have answered.
\<close>

theorem OHLC_no_fallback:
  assumes "validate_id env ''map_regions'' (args_get args ''regionID'') = Inr ()"
    and "validate_id env ''inventory_types'' (args_get args ''typeID'') = Inr ()"
    and "fetch_market_history env (args_get args ''regionID'') (args_get args ''typeID'') = Inl err"
  shows "fst (OHLC_endpoint_get env args return_type [])
           = Inr (if isinstance_ValidatorException err then Body_Status (message err) (status err)
                  else Body_Status ''UNHANDLED EXCEPTION'' 500)
       \<and> filter is_archive_fetch (snd (OHLC_endpoint_get env args return_type [])) = []
       \<and> filter is_market_fetch (snd (OHLC_endpoint_get env args return_type []))
           = [Called_fetch_market_history (args_get args ''regionID'') (args_get args ''typeID'')]"
  using assms
  by (simp add: OHLC_endpoint_get_def validate_inputs_def prog_defs call_defs except_response_def)

theorem OHLC_no_fallback_witness:
  "validate_id (example_env (Inr ''archive series'') (Inl (OtherException ''CREST unreachable'')))
     ''map_regions'' (args_get (ohlc_args (PyInt 10000002) (PyInt 34)) ''regionID'') = Inr ()
   \<and> validate_id (example_env (Inr ''archive series'') (Inl (OtherException ''CREST unreachable'')))
     ''inventory_types'' (args_get (ohlc_args (PyInt 10000002) (PyInt 34)) ''typeID'') = Inr ()
   \<and> fetch_market_history (example_env (Inr ''archive series'') (Inl (OtherException ''CREST unreachable'')))
       (PyInt 10000002) (PyInt 34) = Inl (OtherException ''CREST unreachable'')
   \<and> fetch_extended_history (example_env (Inr ''archive series'') (Inl (OtherException ''CREST unreachable'')))
       (PyInt 10000002) (PyInt 34) = Inr ''archive series''
   \<and> fst (OHLC_endpoint_get (example_env (Inr ''archive series'') (Inl (OtherException ''CREST unreachable'')))
            (ohlc_args (PyInt 10000002) (PyInt 34)) ''json'' [])
       = Inr (Body_Status ''UNHANDLED EXCEPTION'' 500)
   \<and> filter is_archive_fetch
        (snd (OHLC_endpoint_get (example_env (Inr ''archive series'') (Inl (OtherException ''CREST unreachable'')))
            (ohlc_args (PyInt 10000002) (PyInt 34)) ''json'' [])) = []"
  using OHLC_no_fallback [of "example_env (Inr ''archive series'') (Inl (OtherException ''CREST unreachable''))"
      "ohlc_args (PyInt 10000002) (PyInt 34)" "OtherException ''CREST unreachable''" "''json''"]
  by (simp add: example_defs)

text \<open>
  Claim C5. In the OHLC handler an exception raised by either id validation or by the
  market fetch is answered, not propagated: a \<^verbatim>\<open>ValidatorException\<close> gives the pair of its
  own message and its own status, any other exception gives the fixed body
  \<^verbatim>\<open>UNHANDLED EXCEPTION\<close> with status 500, which carries nothing of the exception.
\<close>

theorem OHLC_error_mapping:
  assumes "validate_id env ''map_regions'' (args_get args ''regionID'') = Inl err
         \<or> (validate_id env ''map_regions'' (args_get args ''regionID'') = Inr ()
            \<and> validate_id env ''inventory_types'' (args_get args ''typeID'') = Inl err)
         \<or> (validate_id env ''map_regions'' (args_get args ''regionID'') = Inr ()
            \<and> validate_id env ''inventory_types'' (args_get args ''typeID'') = Inr ()
            \<and> fetch_market_history env (args_get args ''regionID'') (args_get args ''typeID'') = Inl err)"
  shows "fst (OHLC_endpoint_get env args return_type [])
           = Inr (case err of
                    ValidatorException m s \<Rightarrow> Body_Status m s
                  | NameError n \<Rightarrow> Body_Status ''UNHANDLED EXCEPTION'' 500
                  | OtherException d \<Rightarrow> Body_Status ''UNHANDLED EXCEPTION'' 500)"
  using assms
  by (auto simp add: OHLC_endpoint_get_def validate_inputs_def prog_defs call_defs except_response_def split: exn.splits)

theorem OHLC_error_mapping_witness:
  "validate_id (example_env (Inr ''archive series'') (Inr ''market series''))
     ''map_regions'' (args_get (ohlc_args (PyInt 999999999) (PyInt 34)) ''regionID'')
       = Inl (ValidatorException ''ID not found'' 404)
   \<and> fst (OHLC_endpoint_get (example_env (Inr ''archive series'') (Inr ''market series''))
            (ohlc_args (PyInt 999999999) (PyInt 34)) ''json'' [])
       = Inr (Body_Status ''ID not found'' 404)"
  using OHLC_error_mapping [of "example_env (Inr ''archive series'') (Inr ''market series'')"
      "ohlc_args (PyInt 999999999) (PyInt 34)" "ValidatorException ''ID not found'' 404" "''json''"]
  by (simp add: example_defs)

section \<open>Validation comes first\<close>

text \<open>
  Claim C4. In both handlers no data source is asked unless both \<^verbatim>\<open>validate_id\<close> calls
  returned: when the region check raises, or the region check passes and the type check
  raises, the trace of either handler holds no fetch from the market or the archive source,
  and the handler has returned the error response of that exception.
\<close>

theorem no_fetch_before_validation:
  assumes "validate_id env ''map_regions'' (args_get args ''regionID'') = Inl err
         \<or> (validate_id env ''map_regions'' (args_get args ''regionID'') = Inr ()
            \<and> validate_id env ''inventory_types'' (args_get args ''typeID'') = Inl err)"
  shows "filter is_fetch (snd (OHLC_endpoint_get env args return_type [])) = []
       \<and> filter is_fetch (snd (ProphetEndpoint_get env CONFIG args [])) = []
       \<and> fst (OHLC_endpoint_get env args return_type []) = Inr (except_response err)
       \<and> fst (ProphetEndpoint_get env CONFIG args []) = Inr (except_response err)"
  using assms
  by (auto simp add: OHLC_endpoint_get_def ProphetEndpoint_get_def validate_inputs_def prog_defs call_defs)

theorem no_fetch_before_validation_witness:
  "validate_id (example_env (Inr ''archive series'') (Inr ''market series''))
     ''map_regions'' (args_get (prophet_args (PyInt 10000002) (PyInt 35) PyNone) ''regionID'') = Inr ()
   \<and> validate_id (example_env (Inr ''archive series'') (Inr ''market series''))
     ''inventory_types'' (args_get (prophet_args (PyInt 10000002) (PyInt 35) PyNone) ''typeID'')
       = Inl (ValidatorException ''ID not found'' 404)
   \<and> filter is_fetch (snd (OHLC_endpoint_get (example_env (Inr ''archive series'') (Inr ''market series''))
        (prophet_args (PyInt 10000002) (PyInt 35) PyNone) ''csv'' [])) = []
   \<and> filter is_fetch (snd (ProphetEndpoint_get (example_env (Inr ''archive series'') (Inr ''market series''))
        example_CONFIG (prophet_args (PyInt 10000002) (PyInt 35) PyNone) [])) = []
   \<and> fst (ProphetEndpoint_get (example_env (Inr ''archive series'') (Inr ''market series''))
        example_CONFIG (prophet_args (PyInt 10000002) (PyInt 35) PyNone) [])
       = Inr (Body_Status ''ID not found'' 404)"
  using no_fetch_before_validation [of "example_env (Inr ''archive series'') (Inr ''market series'')"
      "prophet_args (PyInt 10000002) (PyInt 35) PyNone" "ValidatorException ''ID not found'' 404"
      "''csv''" example_CONFIG]
  by (simp add: example_defs except_response_def)

text \<open>
  The same fact read from the trace: where a fetch happened, the calls before the first fetch
  are exactly the two validations, region first.
\<close>

lemma fetch_preceded_by_both_validations:
  "filter is_fetch (snd (OHLC_endpoint_get env args return_type [])) \<noteq> []
     \<Longrightarrow> takeWhile (\<lambda>e. \<not> is_fetch e) (filter is_call (snd (OHLC_endpoint_get env args return_type [])))
         = [Called_validate_id ''map_regions'' (args_get args ''regionID''),
            Called_validate_id ''inventory_types'' (args_get args ''typeID'')]"
  "filter is_fetch (snd (ProphetEndpoint_get env CONFIG args [])) \<noteq> []
     \<Longrightarrow> takeWhile (\<lambda>e. \<not> is_fetch e) (filter is_call (snd (ProphetEndpoint_get env CONFIG args [])))
         = [Called_validate_id ''map_regions'' (args_get args ''regionID''),
            Called_validate_id ''inventory_types'' (args_get args ''typeID'')]"
  by (simp_all add: OHLC_endpoint_get_def ProphetEndpoint_get_def validate_inputs_def prog_defs call_defs
        load_return_type load_DEFAULT_RANGE split: sum.splits prod.splits)

section \<open>The forecast handler\<close>

text \<open>
  Claim C10. The horizon handed to \<^verbatim>\<open>build_forecast\<close> is always \<^verbatim>\<open>DEFAULT_RANGE\<close>: two
  requests that agree on every argument but \<^verbatim>\<open>range\<close> lead to the same calls of the
  collaborators, the same horizons and the same outcome.
\<close>

theorem Prophet_range_ignored:
  assumes "\<forall>key. key \<noteq> ''range'' \<longrightarrow> args_get args1 key = args_get args2 key"
  shows "forecast_ranges (snd (ProphetEndpoint_get env CONFIG args1 []))
           = forecast_ranges (snd (ProphetEndpoint_get env CONFIG args2 []))
       \<and> set (forecast_ranges (snd (ProphetEndpoint_get env CONFIG args1 []))) \<subseteq> {PyStr (DEFAULT_RANGE CONFIG)}
       \<and> filter is_call (snd (ProphetEndpoint_get env CONFIG args1 []))
           = filter is_call (snd (ProphetEndpoint_get env CONFIG args2 []))
       \<and> fst (ProphetEndpoint_get env CONFIG args1 []) = fst (ProphetEndpoint_get env CONFIG args2 [])"
proof -
  have r: "args_get args1 ''regionID'' = args_get args2 ''regionID''"
    and t: "args_get args1 ''typeID'' = args_get args2 ''typeID''"
    using assms by simp_all
  show ?thesis
    by (simp add: ProphetEndpoint_get_def validate_inputs_def prog_defs call_defs r t
        load_return_type load_DEFAULT_RANGE forecast_ranges_def split: sum.splits prod.splits)
qed

theorem Prophet_range_ignored_witness:
  "args_get (prophet_args (PyInt 10000002) (PyInt 34) (PyInt 999999)) ''range'' = PyInt 999999
   \<and> args_get (prophet_args (PyInt 10000002) (PyInt 34) (PyInt 5)) ''range'' = PyInt 5
   \<and> forecast_ranges (snd (ProphetEndpoint_get (example_env (Inr ''archive series'') (Inr ''market series''))
        example_CONFIG (prophet_args (PyInt 10000002) (PyInt 34) (PyInt 999999)) []))
       = forecast_ranges (snd (ProphetEndpoint_get (example_env (Inr ''archive series'') (Inr ''market series''))
        example_CONFIG (prophet_args (PyInt 10000002) (PyInt 34) (PyInt 5)) []))
   \<and> fst (ProphetEndpoint_get (example_env (Inr ''archive series'') (Inr ''market series''))
        example_CONFIG (prophet_args (PyInt 10000002) (PyInt 34) (PyInt 999999)) [])
       = fst (ProphetEndpoint_get (example_env (Inr ''archive series'') (Inr ''market series''))
        example_CONFIG (prophet_args (PyInt 10000002) (PyInt 34) (PyInt 5)) [])
   \<and> forecast_ranges (snd (ProphetEndpoint_get (example_env (Inr ''archive series'') (Inr ''market series''))
        example_CONFIG (prophet_args (PyInt 10000002) (PyInt 34) (PyInt 5)) []))
       = [PyStr ''60'']"
proof -
  have h: "\<forall>key. key \<noteq> ''range'' \<longrightarrow>
       args_get (prophet_args (PyInt 10000002) (PyInt 34) (PyInt 999999)) key
         = args_get (prophet_args (PyInt 10000002) (PyInt 34) (PyInt 5)) key"
    by (simp add: args_get_def prophet_args_def)
  have r: "args_get (prophet_args (PyInt 10000002) (PyInt 34) (PyInt 999999)) ''range'' = PyInt 999999"
    "args_get (prophet_args (PyInt 10000002) (PyInt 34) (PyInt 5)) ''range'' = PyInt 5"
    by (simp_all add: args_get_def prophet_args_def)
  have e: "forecast_ranges (snd (ProphetEndpoint_get (example_env (Inr ''archive series'') (Inr ''market series''))
        example_CONFIG (prophet_args (PyInt 10000002) (PyInt 34) (PyInt 5)) []))
       = [PyStr ''60'']"
    by (simp add: ProphetEndpoint_get_def validate_inputs_def prog_defs call_defs
        load_return_type load_DEFAULT_RANGE example_defs forecast_ranges_def)
  from Prophet_range_ignored [OF h, of "example_env (Inr ''archive series'') (Inr ''market series'')" example_CONFIG]
    r e show ?thesis by blast
qed

text \<open>
  What holds of the fallback: after a failed archive fetch the market source is asked once,
  for the same pair, the archive's exception is logged, the fallback's own exception is the
  one that leaves the handler, and a series the fallback returns is the one the forecast is
  built from.
\<close>

lemma Prophet_fallback_once:
  assumes "validate_id env ''map_regions'' (args_get args ''regionID'') = Inr ()"
    and "validate_id env ''inventory_types'' (args_get args ''typeID'') = Inr ()"
    and "fetch_extended_history env (args_get args ''regionID'') (args_get args ''typeID'') = Inl err"
  shows "filter is_fetch (snd (ProphetEndpoint_get env CONFIG args []))
           = [Called_fetch_extended_history (args_get args ''regionID'') (args_get args ''typeID''),
              Called_fetch_market_history (args_get args ''regionID'') (args_get args ''typeID'')]"
    and "LOGGER_warning ''Unable to fetch data from archive'' err
           \<in> set (snd (ProphetEndpoint_get env CONFIG args []))"
    and "fetch_market_history env (args_get args ''regionID'') (args_get args ''typeID'') = Inl err'
           \<Longrightarrow> fst (ProphetEndpoint_get env CONFIG args []) = Inl err'"
    and "fetch_market_history env (args_get args ''regionID'') (args_get args ''typeID'') = Inr data
           \<Longrightarrow> filter is_build_forecast (snd (ProphetEndpoint_get env CONFIG args []))
                 = [Called_build_forecast data (PyStr (DEFAULT_RANGE CONFIG))]"
  using assms
  by (simp_all add: ProphetEndpoint_get_def validate_inputs_def prog_defs call_defs
        load_return_type load_DEFAULT_RANGE split: sum.splits prod.splits)

text \<open>
  The handler never reaches \<^verbatim>\<open>data_to_format\<close> and never returns a formatted message,
  whatever the collaborators, the configuration and the request.
\<close>

lemma Prophet_never_formats:
  "\<not> is_message (fst (ProphetEndpoint_get env CONFIG args []))
   \<and> filter is_data_to_format (snd (ProphetEndpoint_get env CONFIG args [])) = []"
  by (simp add: ProphetEndpoint_get_def validate_inputs_def prog_defs call_defs
        load_return_type load_DEFAULT_RANGE except_response_def split: sum.splits prod.splits)

text \<open>
  Claim C1. A request whose archive fetch fails and whose market fetch succeeds: the archive
  failure is logged, the market source is asked once for the same pair and the forecast is
  built from the market series; but the handler then raises \<^verbatim>\<open>NameError\<close> for
  \<^verbatim>\<open>return_type\<close> instead of returning the forecast the claim promises.
\<close>

theorem Prophet_fallback_then_NameError:
  "ProphetEndpoint_get
     (example_env (Inl (OtherException ''archive unreachable'')) (Inr ''market series''))
     example_CONFIG (prophet_args (PyInt 10000002) (PyInt 34) PyNone) []
   = (Inl (NameError ''return_type''),
      [LOGGER_info ''prophet?regionID=10000002&typeID=34&range=None'',
       LOGGER_debug (prophet_args (PyInt 10000002) (PyInt 34) PyNone),
       Called_validate_id ''map_regions'' (PyInt 10000002),
       Called_validate_id ''inventory_types'' (PyInt 34),
       Called_fetch_extended_history (PyInt 10000002) (PyInt 34),
       LOGGER_warning ''Unable to fetch data from archive'' (OtherException ''archive unreachable''),
       Called_fetch_market_history (PyInt 10000002) (PyInt 34),
       Called_build_forecast ''market series'' (PyStr ''60'')])"
  by (simp add: ProphetEndpoint_get_def validate_inputs_def prog_defs call_defs
      load_return_type load_DEFAULT_RANGE example_defs)

text \<open>
  Claim C2. A request with \<^verbatim>\<open>range=999999\<close> under a configured maximum of 180: the range is
  logged and otherwise unread, no response rejects it, and \<^verbatim>\<open>build_forecast\<close> is called
  with the default 60. The claim asks for a 4xx answer naming the bound.
\<close>

theorem Prophet_range_unchecked:
  "ProphetEndpoint_get
     (example_env (Inr ''archive series'') (Inr ''market series''))
     example_CONFIG (prophet_args (PyInt 10000002) (PyInt 34) (PyInt 999999)) []
   = (Inl (NameError ''return_type''),
      [LOGGER_info ''prophet?regionID=10000002&typeID=34&range=999999'',
       LOGGER_debug (prophet_args (PyInt 10000002) (PyInt 34) (PyInt 999999)),
       Called_validate_id ''map_regions'' (PyInt 10000002),
       Called_validate_id ''inventory_types'' (PyInt 34),
       Called_fetch_extended_history (PyInt 10000002) (PyInt 34),
       Called_build_forecast ''archive series'' (PyStr ''60'')])
   \<and> MAX_RANGE example_CONFIG = ''180''"
  by (simp add: ProphetEndpoint_get_def validate_inputs_def prog_defs call_defs
      load_return_type load_DEFAULT_RANGE example_defs MAX_RANGE_def)

text \<open>
  Claim C6. An exception of the fallback market fetch, here a \<^verbatim>\<open>ValidatorException\<close> with
  status 404, leaves the handler as an exception instead of becoming the response
  \<^verbatim>\<open>('no market data', 404)\<close>; so does an exception of \<^verbatim>\<open>build_forecast\<close>. The claim
  asks for every fallible step to be caught and translated.
\<close>

theorem Prophet_errors_propagate:
  "ProphetEndpoint_get
     (example_env (Inl (OtherException ''archive unreachable''))
                  (Inl (ValidatorException ''no market data'' 404)))
     example_CONFIG (prophet_args (PyInt 10000002) (PyInt 34) PyNone) []
   = (Inl (ValidatorException ''no market data'' 404),
      [LOGGER_info ''prophet?regionID=10000002&typeID=34&range=None'',
       LOGGER_debug (prophet_args (PyInt 10000002) (PyInt 34) PyNone),
       Called_validate_id ''map_regions'' (PyInt 10000002),
       Called_validate_id ''inventory_types'' (PyInt 34),
       Called_fetch_extended_history (PyInt 10000002) (PyInt 34),
       LOGGER_warning ''Unable to fetch data from archive'' (OtherException ''archive unreachable''),
       Called_fetch_market_history (PyInt 10000002) (PyInt 34)])
   \<and> fst (ProphetEndpoint_get
        ((example_env (Inr ''archive series'') (Inr ''market series''))
           \<lparr>build_forecast := (\<lambda>data forecast_range. Inl (OtherException ''series too short''))\<rparr>)
        example_CONFIG (prophet_args (PyInt 10000002) (PyInt 34) PyNone) [])
     = Inl (OtherException ''series too short'')"
  by (simp add: ProphetEndpoint_get_def validate_inputs_def prog_defs call_defs
      load_return_type load_DEFAULT_RANGE example_defs)

text \<open>
  Claim C7. A valid request for which every collaborator succeeds: the forecast is built,
  \<^verbatim>\<open>data_to_format\<close> is never called and the handler raises \<^verbatim>\<open>NameError\<close>, where the
  OHLC handler on the same deployment formats its series with the request's
  \<^verbatim>\<open>return_type\<close> and returns the message.
\<close>

theorem Prophet_never_reaches_data_to_format:
  "ProphetEndpoint_get
     (example_env (Inr ''archive series'') (Inr ''market series''))
     example_CONFIG (prophet_args (PyInt 10000002) (PyInt 34) PyNone) []
   = (Inl (NameError ''return_type''),
      [LOGGER_info ''prophet?regionID=10000002&typeID=34&range=None'',
       LOGGER_debug (prophet_args (PyInt 10000002) (PyInt 34) PyNone),
       Called_validate_id ''map_regions'' (PyInt 10000002),
       Called_validate_id ''inventory_types'' (PyInt 34),
       Called_fetch_extended_history (PyInt 10000002) (PyInt 34),
       Called_build_forecast ''archive series'' (PyStr ''60'')])
   \<and> OHLC_endpoint_get
     (example_env (Inr ''archive series'') (Inr ''market series''))
     (ohlc_args (PyInt 10000002) (PyInt 34)) ''json'' []
   = (Inr (Message ''json of market series''),
      [LOGGER_info ''OHLC?regionID=10000002&typeID=34'',
       LOGGER_debug (ohlc_args (PyInt 10000002) (PyInt 34)),
       Called_validate_id ''map_regions'' (PyInt 10000002),
       Called_validate_id ''inventory_types'' (PyInt 34),
       Called_fetch_market_history (PyInt 10000002) (PyInt 34),
       Called_OHLC_to_format ''market series'' (PyStr ''json'')])"
  by (simp add: ProphetEndpoint_get_def OHLC_endpoint_get_def validate_inputs_def prog_defs call_defs
      load_return_type load_DEFAULT_RANGE example_defs)

section \<open>The statistics hook\<close>

text \<open>
  With every argument supplied the body does nothing and gives \<^verbatim>\<open>None\<close>; the name
  \<^verbatim>\<open>DEFAULT_LOGGER\<close> of the default is bound by no statement of the module.
\<close>

lemma collect_stats_body:
  "collect_stats endpoint_name args_payload additional_data db_name logger tr = (Inr PyNone, tr)"
  by (simp add: collect_stats_def unit_prog_def)

lemma DEFAULT_LOGGER_unbound:
  "load_global (module_globals CONFIG) ''DEFAULT_LOGGER'' = Inl (NameError ''DEFAULT_LOGGER'')"
  by (simp add: load_global_def module_globals_def globals_before_collect_stats_def
      globals_from_collect_stats_def python_builtins_def)

text \<open>
  Claim C9. \<^verbatim>\<open>collect_stats\<close> called with an endpoint name and an args payload, the
  optional arguments left to their defaults: the default of \<^verbatim>\<open>logger\<close> is the unbound name
  \<^verbatim>\<open>DEFAULT_LOGGER\<close>, so the \<^verbatim>\<open>def\<close> statement raises \<^verbatim>\<open>NameError\<close> and there is no
  function to call, where the claim says the call returns \<^verbatim>\<open>None\<close> and never raises.
\<close>

theorem collect_stats_default_unbound:
  "def_collect_stats globals_before_collect_stats = Inl (NameError ''DEFAULT_LOGGER'')
   \<and> collect_stats_with_defaults globals_before_collect_stats ''OHLC''
        (prophet_args (PyInt 10000002) (PyInt 34) PyNone) []
      = (Inl (NameError ''DEFAULT_LOGGER''), [])"
  by (simp add: def_collect_stats_def collect_stats_with_defaults_def load_global_def
      globals_before_collect_stats_def python_builtins_def prog_defs)

end
